theory Spec2Isabelle
  imports Complex_Main
begin

section \<open>Numbers\<close>

text \<open>
  The dashboards compute with JavaScript numbers. The inputs of \<open>predict\<close> are readings
  typed into number fields and passed on as \<open>parseFloat(value || "0")\<close>; the model takes
  them as finite numbers, that is as reals, and leaves the rounding of the double format
  out, so an equation below is one of exact arithmetic. Where the source can divide by
  zero (the trend of the heuristic dashboards, called with a life of zero days) the
  branch is written out; everywhere else the divisor is a non-zero constant or is floored
  at a positive epsilon before the division.
\<close>

definition clamp :: "real \<Rightarrow> real \<Rightarrow> real \<Rightarrow> real" where
  \<comment> \<open>\<open>const clamp = (x, a, b) => Math.min(b, Math.max(a, x))\<close>\<close>
  "clamp x a b = min b (max a x)"

section \<open>Data\<close>

text \<open>The object \<open>{ pb, as }\<close>: the guideline limits, and the metal readings of a sample.\<close>

record metals =
  pb :: real
  as :: real

text \<open>The argument of \<open>predict\<close> in the heuristic dashboards: \<open>{ pb, as, ph, turbidity }\<close>.\<close>

record sample = metals +
  ph :: real
  turbidity :: real

text \<open>The argument of \<open>predict\<close> in \<open>App.jsx\<close>, with the flow and the media.\<close>

record capacity_sample = sample +
  flow_L_day :: real
  mediaMass_g :: real
  capacity_mg_g :: real

text \<open>
  A recommendation record \<open>{ kind, title, detail }\<close>; \<open>kind\<close> is "ok", "warn" or "bad".
  The en dash of three detail texts is written as a hyphen.
\<close>

record action =
  kind :: string
  title :: string
  detail :: string

text \<open>A recommendation block of \<open>predict\<close>: it pushes onto the list \<open>actions\<close>.\<close>

type_synonym push = "action list \<Rightarrow> action list"

record compliance_flags =
  pbPass :: bool
  asPass :: bool

text \<open>The fields every \<open>predict\<close> returns.\<close>

record removal_result =
  pbRemovalPct :: real
  asRemovalPct :: real
  pbOut :: real
  asOut :: real

text \<open>The object returned by the static Bennyfilt dashboard.\<close>

record benny_result = removal_result +
  days :: real
  totalTreatable_L :: real
  foulingFactor :: real
  removed_mg_day :: real
  totalCapacity_mg :: real

text \<open>The object returned by the heuristic dashboards.\<close>

record advice_result = removal_result +
  risk :: real
  rulDays :: real
  limits :: metals
  compliance :: compliance_flags
  actions :: "action list"

text \<open>The object returned by \<open>App.jsx\<close>: the same fields and those of the capacity model.\<close>

record capacity_result = advice_result +
  totalTreatable_L :: real
  totalCapacity_mg :: real
  total_removed_mg_day :: real
  foulingFactor :: real

text \<open>Trend points: \<open>{ day, treated, remaining }\<close> and \<open>{ day, capacity, breakthrough }\<close>.\<close>

record day_point =
  day :: nat

record treated_point = day_point +
  treated :: real
  remaining :: real

record breakthrough_point = day_point +
  capacity :: real
  breakthrough :: real

section \<open>The capacity-based dashboard (\<open>ai4water_pwa_newdesign/src/App.jsx\<close>)\<close>

definition pushTurbidity_app :: "real \<Rightarrow> push" where
  \<comment> \<open>the turbidity advice\<close>
  "pushTurbidity_app t acts =
     (if t \<ge> 900 then
        acts @ [\<lparr> kind = ''bad'', title = ''Very high turbidity influent'',
          detail = ''Prioritize coagulation-clarification and reduce flow to protect adsorption media from rapid fouling.'' \<rparr>]
      else if t \<ge> 300 then
        acts @ [\<lparr> kind = ''warn'', title = ''High turbidity influent'',
          detail = ''Optimize pre-treatment and monitor headloss; schedule more frequent cleaning/backwash.'' \<rparr>]
      else
        acts @ [\<lparr> kind = ''ok'', title = ''Turbidity manageable'',
          detail = ''Influent turbidity is within a range that is easier to manage operationally.'' \<rparr>])"

definition pushPh_app :: "real \<Rightarrow> push" where
  \<comment> \<open>pH: influent range accepted, potable target flagged\<close>
  "pushPh_app p acts =
     (if p < 5.0 \<or> p > 9.0 then
        acts @ [\<lparr> kind = ''bad'', title = ''pH outside expected influent range'',
          detail = ''Consider pH conditioning; adsorption/speciation may deviate strongly outside typical ranges.'' \<rparr>]
      else if p < 6.5 \<or> p > 8.5 then
        acts @ [\<lparr> kind = ''warn'', title = ''pH outside drinking-water target'',
          detail = ''Water may be treatable but requires pH adjustment to meet potable guidelines.'' \<rparr>]
      else
        acts @ [\<lparr> kind = ''ok'', title = ''pH within drinking-water target'',
          detail = ''pH is within typical potable guideline range (6.5-8.5).'' \<rparr>])"

definition pushMetals_app :: "bool \<Rightarrow> bool \<Rightarrow> push" where
  \<comment> \<open>metals guideline\<close>
  "pushMetals_app pbP asP acts =
     (if \<not> pbP \<or> \<not> asP then
        acts @ [\<lparr> kind = ''bad'', title = ''Predicted guideline exceedance'',
          detail = ''Increase contact time (reduce flow), add polishing stage, or refresh adsorption media; verify with lab testing.'' \<rparr>]
      else
        acts @ [\<lparr> kind = ''ok'', title = ''Predicted within Pb/As limits'',
          detail = ''Predicted effluent meets the displayed limits under current inputs.'' \<rparr>])"

definition pushRisk_app :: "real \<Rightarrow> push" where
  \<comment> \<open>risk action\<close>
  "pushRisk_app r acts =
     (if r \<ge> 0.66 then
        acts @ [\<lparr> kind = ''bad'', title = ''Operational risk high'',
          detail = ''Plan early media replacement and increase Pb/As sampling frequency.'' \<rparr>]
      else if r \<ge> 0.33 then
        acts @ [\<lparr> kind = ''warn'', title = ''Operational risk moderate'',
          detail = ''Monitor closely; schedule periodic lab verification and track throughput.'' \<rparr>]
      else
        acts @ [\<lparr> kind = ''ok'', title = ''Operational risk low'',
          detail = ''Operation appears stable; continue routine monitoring and logging.'' \<rparr>])"

definition predict_app :: "capacity_sample \<Rightarrow> capacity_result" where
  "predict_app s =
     (let turbPenalty = clamp ((turbidity s - 50) / 1200) 0 0.30;
          phPenalty = clamp (\<bar>ph s - 7.5\<bar> / 5.0) 0 0.20;
          load = pb s + as s;
          loadPenalty = clamp (load / 10.0) 0 0.12;
          pbRemoval = clamp (0.95 - turbPenalty - phPenalty - loadPenalty) 0.55 0.98;
          asRemoval = clamp (0.90 - turbPenalty - phPenalty - loadPenalty) 0.50 0.97;
          pbOut' = pb s * (1 - pbRemoval);
          asOut' = as s * (1 - asRemoval);
          limits' = \<lparr> pb = 0.01, as = 0.01 \<rparr>;
          pbPass' = (pbOut' \<le> pb limits');
          asPass' = (asOut' \<le> as limits');
          foulingFactor' = clamp (1.0 - 0.60 * clamp (turbidity s / 1000) 0 1.5) 0.35 1.0;
          totalCapacity_mg' = max 0 (mediaMass_g s * capacity_mg_g s * foulingFactor');
          pb_in_mg_day = max 0 (pb s * flow_L_day s);
          as_in_mg_day = max 0 (as s * flow_L_day s);
          pb_removed_mg_day = pb_in_mg_day * pbRemoval;
          as_removed_mg_day = as_in_mg_day * asRemoval;
          total_removed_mg_day' = max (1 / 10 ^ 9) (pb_removed_mg_day + as_removed_mg_day);
          rulDays' = clamp (totalCapacity_mg' / total_removed_mg_day') 0 365;
          totalTreatable_L' = rulDays' * flow_L_day s;
          risk' = clamp (0.10
                    + clamp ((turbidity s - 200) / 1200) 0 0.45
                    + clamp (load / 12.0) 0 0.25
                    + clamp (\<bar>ph s - 7.5\<bar> / 7.5) 0 0.15
                    + clamp (flow_L_day s / 8000) 0 0.15) 0.05 0.95;
          actions0 = [];
          actions1 = pushTurbidity_app (turbidity s) actions0;
          actions2 = pushPh_app (ph s) actions1;
          actions3 = pushMetals_app pbPass' asPass' actions2;
          actions4 = pushRisk_app risk' actions3
      in \<lparr> pbRemovalPct = pbRemoval * 100,
           asRemovalPct = asRemoval * 100,
           pbOut = pbOut',
           asOut = asOut',
           risk = risk',
           rulDays = rulDays',
           limits = limits',
           compliance = \<lparr> pbPass = pbPass', asPass = asPass' \<rparr>,
           actions = actions4,
           totalTreatable_L = totalTreatable_L',
           totalCapacity_mg = totalCapacity_mg',
           total_removed_mg_day = total_removed_mg_day',
           foulingFactor = foulingFactor' \<rparr>)"

definition makeTrend_app :: "real \<Rightarrow> real \<Rightarrow> real \<Rightarrow> treated_point list" where
  \<comment> \<open>\<open>makeTrend(rulDays, flow_L_day, totalTreatable_L)\<close>; \<open>Array.from\<close> runs \<open>i\<close> over 0..13\<close>
  "makeTrend_app rulDays' flow totalTreatable =
     (let points = 14;
          safeDays = max rulDays' (1 / 10 ^ 6)
      in map (\<lambda>i.
            let day' = i + 1;
                frac = real day' / real points;
                remainingDays = max 0 (safeDays * (1 - frac));
                treated' = min totalTreatable (real day' * flow);
                pctRemaining = clamp ((remainingDays / safeDays) * 100) 0 100
            in \<lparr> day = day', treated = treated', remaining = pctRemaining \<rparr>)
          [0 ..< points])"

definition DEFAULTS :: capacity_sample where
  \<comment> \<open>the defaults of \<open>App.jsx\<close>, but for the site name\<close>
  "DEFAULTS = \<lparr> pb = 0.20, as = 1.00, ph = 6.2, turbidity = 500,
                flow_L_day = 2000, mediaMass_g = 3000, capacity_mg_g = 6 \<rparr>"

section \<open>The static Bennyfilt dashboard (\<open>src/unnamed/part_005\<close>)\<close>

text \<open>
  The React source that follows the service worker in
  \<open>src/Bennyfilt_Pages_Ready/app/public/sw.js\<close> holds the same \<open>predict\<close> and the same
  series.
\<close>

definition MEDIA_MASS_G :: real where
  "MEDIA_MASS_G = 3000"

definition CAPACITY_MG_G :: real where
  "CAPACITY_MG_G = 6"

definition predict_benny :: "real \<Rightarrow> real \<Rightarrow> real \<Rightarrow> real \<Rightarrow> benny_result" where
  \<comment> \<open>\<open>predict(pb, as, turbidity, flow_L_day)\<close>\<close>
  "predict_benny pb' as' turbidity' flow =
     (let turbPenalty = clamp ((turbidity' - 50) / 1200) 0 0.40;
          pbRemoval = clamp (0.95 - turbPenalty) 0.60 0.98;
          asRemoval = clamp (0.90 - turbPenalty) 0.55 0.97;
          pbOut' = pb' * (1 - pbRemoval);
          asOut' = as' * (1 - asRemoval);
          foulingFactor' = clamp (1 - 0.60 * clamp (turbidity' / 1000) 0 1.5) 0.35 1.0;
          totalCapacity_mg' = max 0 (MEDIA_MASS_G * CAPACITY_MG_G * foulingFactor');
          pb_removed_mg_day = (pb' * flow) * pbRemoval;
          as_removed_mg_day = (as' * flow) * asRemoval;
          removed_mg_day' = max (1 / 10 ^ 9) (pb_removed_mg_day + as_removed_mg_day);
          days' = clamp (totalCapacity_mg' / removed_mg_day') 0 365;
          totalTreatable_L' = days' * flow
      in \<lparr> pbRemovalPct = pbRemoval * 100,
           asRemovalPct = asRemoval * 100,
           pbOut = pbOut',
           asOut = asOut',
           days = days',
           benny_result.totalTreatable_L = totalTreatable_L',
           benny_result.foulingFactor = foulingFactor',
           removed_mg_day = removed_mg_day',
           benny_result.totalCapacity_mg = totalCapacity_mg' \<rparr>)"

definition update_trend :: "real \<Rightarrow> real \<Rightarrow> real \<Rightarrow> real \<Rightarrow> treated_point list" where
  \<comment> \<open>the series \<open>trend\<close> built in \<open>update()\<close> from the inputs read from the form; the
      constant \<open>days\<close> that \<open>update()\<close> computes beside it is not used\<close>
  "update_trend pb' as' turb flow =
     (let out = predict_benny pb' as' turb flow;
          pts = 14;
          totalL = benny_result.totalTreatable_L out
      in map (\<lambda>i.
            let day' = i + 1;
                treated' = min totalL (real day' * flow);
                remaining' = max 0 (1 - real day' / real pts) * 100
            in \<lparr> day = day', treated = treated', remaining = remaining' \<rparr>)
          [0 ..< pts])"

section \<open>The heuristic dashboards (\<open>src/unnamed/part_001\<close>, \<open>part_003\<close>, \<open>part_004\<close>)\<close>

text \<open>
  The three files hold the same \<open>predict\<close> but for the four recommendation blocks, whose
  cut points and texts differ, and the same \<open>makeTrend\<close>. The common text is given once,
  with the four blocks of a file as arguments.
\<close>

definition predict_heuristic ::
  "(real \<Rightarrow> push) \<Rightarrow> (real \<Rightarrow> push) \<Rightarrow> (bool \<Rightarrow> bool \<Rightarrow> push) \<Rightarrow> (real \<Rightarrow> push)
     \<Rightarrow> sample \<Rightarrow> advice_result" where
  "predict_heuristic pushTurbidity pushPh pushMetals pushRisk s =
     (let turbPenalty = clamp ((turbidity s - 50) / 1200) 0 0.30;
          phPenalty = clamp (\<bar>ph s - 7.5\<bar> / 5.0) 0 0.20;
          load = pb s + as s;
          loadPenalty = clamp (load / 10.0) 0 0.12;
          pbRemoval = clamp (0.95 - turbPenalty - phPenalty - loadPenalty) 0.60 0.98;
          asRemoval = clamp (0.90 - turbPenalty - phPenalty - loadPenalty) 0.55 0.97;
          pbOut' = pb s * (1 - pbRemoval);
          asOut' = as s * (1 - asRemoval);
          risk' = clamp (0.12
                    + clamp ((turbidity s - 200) / 1200) 0 0.45
                    + clamp (load / 12.0) 0 0.35
                    + clamp (\<bar>ph s - 7.5\<bar> / 7.5) 0 0.20) 0.05 0.95;
          limits' = \<lparr> pb = 0.01, as = 0.01 \<rparr>;
          pbPass' = (pbOut' \<le> pb limits');
          asPass' = (asOut' \<le> as limits');
          actions0 = [];
          actions1 = pushTurbidity (turbidity s) actions0;
          actions2 = pushPh (ph s) actions1;
          actions3 = pushMetals pbPass' asPass' actions2;
          actions4 = pushRisk risk' actions3;
          stress = 0.45 * clamp (turbidity s / 1200) 0 1
                 + 0.35 * clamp (load / 12.0) 0 1
                 + 0.20 * clamp (\<bar>ph s - 7.5\<bar> / 7.5) 0 1;
          rulDays' = real_of_int \<lfloor>clamp (30 - 24 * stress) 3 30 + 1 / 2\<rfloor>
      in \<lparr> pbRemovalPct = pbRemoval * 100,
           asRemovalPct = asRemoval * 100,
           pbOut = pbOut',
           asOut = asOut',
           risk = risk',
           rulDays = rulDays',
           limits = limits',
           compliance = \<lparr> pbPass = pbPass', asPass = asPass' \<rparr>,
           actions = actions4 \<rparr>)"

definition makeTrend_heuristic :: "real \<Rightarrow> breakthrough_point list" where
  \<comment> \<open>\<open>makeTrend(rulDays)\<close>. With \<open>rulDays\<close> zero the source divides the positive \<open>100 * day\<close>
      by zero: the quotient is \<open>Infinity\<close>, \<open>100 - Infinity\<close> is \<open>-Infinity\<close> and the clamp
      returns its floor 8. \<open>predict\<close> itself returns a life of 3 to 30 days.\<close>
  "makeTrend_heuristic rulDays' =
     (let points = 14
      in map (\<lambda>i.
            let day' = i + 1;
                frac = real day' / real points;
                capacity' = (if rulDays' * 0.55 = 0 then 8
                             else clamp (100 - (100 * real day') / (rulDays' * 0.55)) 8 100);
                breakthrough' = clamp (0.15 + frac * (1.0 - capacity' / 100)) 0.05 0.95 * 100
            in \<lparr> day = day', capacity = capacity', breakthrough = breakthrough' \<rparr>)
          [0 ..< points])"

subsection \<open>\<open>src/unnamed/part_001\<close>\<close>

definition pushTurbidity_p001 :: "real \<Rightarrow> push" where
  "pushTurbidity_p001 t acts =
     (if t \<ge> 900 then
        acts @ [\<lparr> kind = ''bad'', title = ''Turbidity very high'',
          detail = ''Strengthen coagulation/clarification or reduce flow to prevent clogging and loss of adsorption capacity.'' \<rparr>]
      else if t \<ge> 300 then
        acts @ [\<lparr> kind = ''warn'', title = ''Turbidity elevated'',
          detail = ''Use conservative operating conditions and clean/backwash pre-filtration stages more frequently.'' \<rparr>]
      else
        acts @ [\<lparr> kind = ''ok'', title = ''Turbidity controlled'',
          detail = ''Filtration performance should remain stable under current conditions.'' \<rparr>])"

definition pushPh_p001 :: "real \<Rightarrow> push" where
  "pushPh_p001 p acts =
     (if p < 6.5 \<or> p > 8.5 then
        acts @ [\<lparr> kind = ''warn'', title = ''pH outside drinking-water range'',
          detail = ''Consider pH conditioning; adsorption/speciation can change at extreme pH.'' \<rparr>]
      else
        acts @ [\<lparr> kind = ''ok'', title = ''pH within drinking-water range'',
          detail = ''pH supports stable operation for metal removal.'' \<rparr>])"

definition pushMetals_p001 :: "bool \<Rightarrow> bool \<Rightarrow> push" where
  "pushMetals_p001 pbP asP acts =
     (if \<not> pbP \<or> \<not> asP then
        acts @ [\<lparr> kind = ''bad'', title = ''Guideline exceedance risk'',
          detail = ''Increase contact time, add polishing stage, or replace/refresh adsorption media; confirm with Pb/As testing.'' \<rparr>]
      else
        acts @ [\<lparr> kind = ''ok'', title = ''Within guideline limits'',
          detail = ''Continue operation and log data for performance tracking.'' \<rparr>])"

definition pushRisk_p001 :: "real \<Rightarrow> push" where
  "pushRisk_p001 r acts =
     (if r \<ge> 0.66 then
        acts @ [\<lparr> kind = ''bad'', title = ''Breakthrough risk high'',
          detail = ''Plan earlier media replacement and increase Pb/As sampling frequency.'' \<rparr>]
      else if r \<ge> 0.33 then
        acts @ [\<lparr> kind = ''warn'', title = ''Breakthrough risk moderate'',
          detail = ''Monitor effluent closely and schedule periodic lab verification.'' \<rparr>]
      else
        acts @ [\<lparr> kind = ''ok'', title = ''Breakthrough risk low'',
          detail = ''Operation appears stable; continue routine monitoring.'' \<rparr>])"

definition predict_p001 :: "sample \<Rightarrow> advice_result" where
  "predict_p001 = predict_heuristic pushTurbidity_p001 pushPh_p001 pushMetals_p001 pushRisk_p001"

definition DEFAULTS_p001 :: sample where
  \<comment> \<open>the defaults of \<open>part_001\<close> and of \<open>part_004\<close>\<close>
  "DEFAULTS_p001 = \<lparr> pb = 0.20, as = 0.05, ph = 8.0, turbidity = 840 \<rparr>"

subsection \<open>\<open>src/unnamed/part_003\<close>\<close>

definition pushTurbidity_p003 :: "real \<Rightarrow> push" where
  "pushTurbidity_p003 t acts =
     (if t > 10 then
        acts @ [\<lparr> kind = ''bad'', title = ''Turbidity exceeds drinking-water target'',
          detail = ''Improve pre-treatment (coagulation/clarification) to reduce turbidity before final filtration.'' \<rparr>]
      else if t > 5 then
        acts @ [\<lparr> kind = ''warn'', title = ''Turbidity above preferred range'',
          detail = ''Operate conservatively and monitor turbidity closely; optimize pre-treatment if possible.'' \<rparr>]
      else
        acts @ [\<lparr> kind = ''ok'', title = ''Turbidity within drinking-water target'',
          detail = ''Turbidity is within recommended range for potable water.'' \<rparr>])"

definition pushPh_p003 :: "real \<Rightarrow> push" where
  "pushPh_p003 p acts =
     (if p < 6.5 \<or> p > 8.5 then
        acts @ [\<lparr> kind = ''warn'', title = ''pH outside drinking-water range'',
          detail = ''Consider pH adjustment; metal speciation and adsorption performance may change at extreme pH.'' \<rparr>]
      else
        acts @ [\<lparr> kind = ''ok'', title = ''pH within drinking-water range'',
          detail = ''pH is within the typical guideline range for potable water.'' \<rparr>])"

definition pushMetals_p003 :: "bool \<Rightarrow> bool \<Rightarrow> push" where
  "pushMetals_p003 pbP asP acts =
     (if \<not> pbP \<or> \<not> asP then
        acts @ [\<lparr> kind = ''bad'', title = ''Guideline exceedance risk'',
          detail = ''Increase contact time, add polishing stage, or refresh adsorption media; confirm with Pb/As testing.'' \<rparr>]
      else
        acts @ [\<lparr> kind = ''ok'', title = ''Within Pb/As guideline limits'',
          detail = ''Predicted effluent meets guideline limits under current inputs.'' \<rparr>])"

definition pushRisk_p003 :: "real \<Rightarrow> push" where
  "pushRisk_p003 r acts =
     (if r \<ge> 0.66 then
        acts @ [\<lparr> kind = ''bad'', title = ''Operational risk high'',
          detail = ''Media likely approaching saturation; increase sampling frequency and plan replacement.'' \<rparr>]
      else if r \<ge> 0.33 then
        acts @ [\<lparr> kind = ''warn'', title = ''Operational risk moderate'',
          detail = ''Monitor performance; schedule periodic lab verification.'' \<rparr>]
      else
        acts @ [\<lparr> kind = ''ok'', title = ''Operational risk low'',
          detail = ''Operation appears stable; continue routine monitoring.'' \<rparr>])"

definition predict_p003 :: "sample \<Rightarrow> advice_result" where
  "predict_p003 = predict_heuristic pushTurbidity_p003 pushPh_p003 pushMetals_p003 pushRisk_p003"

definition DEFAULTS_p003 :: sample where
  \<comment> \<open>the defaults of \<open>part_003\<close>\<close>
  "DEFAULTS_p003 = \<lparr> pb = 0.20, as = 0.05, ph = 8.0, turbidity = 40 \<rparr>"

subsection \<open>\<open>src/unnamed/part_004\<close>\<close>

definition pushTurbidity_p004 :: "real \<Rightarrow> push" where
  "pushTurbidity_p004 t acts =
     (if t \<ge> 900 then
        acts @ [\<lparr> kind = ''bad'', title = ''Very high turbidity'',
          detail = ''Strengthen coagulation-clarification or reduce flow to prevent clogging and loss of adsorption capacity.'' \<rparr>]
      else if t \<ge> 300 then
        acts @ [\<lparr> kind = ''warn'', title = ''Elevated turbidity'',
          detail = ''Use conservative operating conditions; clean/backwash pre-filtration stages more frequently.'' \<rparr>]
      else
        acts @ [\<lparr> kind = ''ok'', title = ''Turbidity manageable'',
          detail = ''Filtration performance should remain stable under current conditions.'' \<rparr>])"

definition pushPh_p004 :: "real \<Rightarrow> push" where
  "pushPh_p004 p acts =
     (if p < 6.0 \<or> p > 9.0 then
        acts @ [\<lparr> kind = ''warn'', title = ''pH outside preferred range'',
          detail = ''Consider pH conditioning; adsorption/speciation can change at extreme pH.'' \<rparr>]
      else
        acts @ [\<lparr> kind = ''ok'', title = ''pH acceptable'',
          detail = ''pH supports stable operation for many adsorption media.'' \<rparr>])"

definition pushMetals_p004 :: "bool \<Rightarrow> bool \<Rightarrow> push" where
  "pushMetals_p004 pbP asP acts =
     (if \<not> pbP \<or> \<not> asP then
        acts @ [\<lparr> kind = ''bad'', title = ''Predicted non-compliance'',
          detail = ''Increase contact time, add polishing stage, or replace/refresh adsorption media. Confirm with lab tests.'' \<rparr>]
      else
        acts @ [\<lparr> kind = ''ok'', title = ''Predicted compliance'',
          detail = ''Continue operation and record data to improve the model.'' \<rparr>])"

definition pushRisk_p004 :: "real \<Rightarrow> push" where
  "pushRisk_p004 r acts =
     (if r \<ge> 0.66 then
        acts @ [\<lparr> kind = ''bad'', title = ''Breakthrough risk high'',
          detail = ''Plan earlier media replacement and increase Pb/As sampling frequency.'' \<rparr>]
      else if r \<ge> 0.33 then
        acts @ [\<lparr> kind = ''warn'', title = ''Breakthrough risk moderate'',
          detail = ''Monitor effluent closely; schedule periodic lab verification.'' \<rparr>]
      else
        acts @ [\<lparr> kind = ''ok'', title = ''Breakthrough risk low'',
          detail = ''Operation appears stable; keep logging inputs and outputs.'' \<rparr>])"

definition predict_p004 :: "sample \<Rightarrow> advice_result" where
  "predict_p004 = predict_heuristic pushTurbidity_p004 pushPh_p004 pushMetals_p004 pushRisk_p004"

section \<open>A sample with very little media\<close>

definition tiny_media :: capacity_sample where
  \<comment> \<open>a sample for \<open>App.jsx\<close> with no flow and ten nanograms of media\<close>
  "tiny_media = \<lparr> pb = 0.20, as = 1.00, ph = 7.5, turbidity = 0,
                  flow_L_day = 0, mediaMass_g = 1 / 10 ^ 8, capacity_mg_g = 1 \<rparr>"

section \<open>The trend the specification describes\<close>

definition linear_decay_spec :: "real \<Rightarrow> nat \<Rightarrow> real" where
  \<comment> \<open>Follows the specification's words, not the source: the remaining percentage at day
      \<open>i\<close> is a linear decay from 100 to 0 over \<open>window\<close> days (the life duration or the
      14-point window, not zero), clamped to [0, 100].\<close>
  "linear_decay_spec window i = clamp (100 - 100 * real i / window) 0 100"

section \<open>Facts about \<open>clamp\<close> and the returned fields\<close>

lemma clamp_lower: "a \<le> b \<Longrightarrow> a \<le> clamp x a b"
  by (simp add: clamp_def)

lemma clamp_upper: "clamp x a b \<le> b"
  by (simp add: clamp_def)

lemma clamp_mono: "x \<le> y \<Longrightarrow> clamp x a b \<le> clamp y a b"
  unfolding clamp_def by (intro min.mono max.mono order_refl)

lemma pbRemovalPct_app:
  "pbRemovalPct (predict_app s) =
     clamp (0.95 - clamp ((turbidity s - 50) / 1200) 0 0.30 - clamp (\<bar>ph s - 7.5\<bar> / 5.0) 0 0.20
            - clamp ((pb s + as s) / 10.0) 0 0.12) 0.55 0.98 * 100"
  by (simp add: predict_app_def Let_def)

lemma asRemovalPct_app:
  "asRemovalPct (predict_app s) =
     clamp (0.90 - clamp ((turbidity s - 50) / 1200) 0 0.30 - clamp (\<bar>ph s - 7.5\<bar> / 5.0) 0 0.20
            - clamp ((pb s + as s) / 10.0) 0 0.12) 0.50 0.97 * 100"
  by (simp add: predict_app_def Let_def)

lemma pbRemovalPct_benny:
  "pbRemovalPct (predict_benny p a t f) =
     clamp (0.95 - clamp ((t - 50) / 1200) 0 0.40) 0.60 0.98 * 100"
  by (simp add: predict_benny_def Let_def)

lemma asRemovalPct_benny:
  "asRemovalPct (predict_benny p a t f) =
     clamp (0.90 - clamp ((t - 50) / 1200) 0 0.40) 0.55 0.97 * 100"
  by (simp add: predict_benny_def Let_def)

lemma pbOut_benny:
  "pbOut (predict_benny p a t f) =
     p * (1 - clamp (0.95 - clamp ((t - 50) / 1200) 0 0.40) 0.60 0.98)"
  by (simp add: predict_benny_def Let_def)

lemma asOut_benny:
  "asOut (predict_benny p a t f) =
     a * (1 - clamp (0.90 - clamp ((t - 50) / 1200) 0 0.40) 0.55 0.97)"
  by (simp add: predict_benny_def Let_def)

lemma pbRemovalPct_heuristic:
  "pbRemovalPct (predict_heuristic ta pa ma ra s) =
     clamp (0.95 - clamp ((turbidity s - 50) / 1200) 0 0.30 - clamp (\<bar>ph s - 7.5\<bar> / 5.0) 0 0.20
            - clamp ((pb s + as s) / 10.0) 0 0.12) 0.60 0.98 * 100"
  by (simp add: predict_heuristic_def Let_def)

lemma asRemovalPct_heuristic:
  "asRemovalPct (predict_heuristic ta pa ma ra s) =
     clamp (0.90 - clamp ((turbidity s - 50) / 1200) 0 0.30 - clamp (\<bar>ph s - 7.5\<bar> / 5.0) 0 0.20
            - clamp ((pb s + as s) / 10.0) 0 0.12) 0.55 0.97 * 100"
  by (simp add: predict_heuristic_def Let_def)

lemma fraction_in_bounds:
  assumes "a \<le> b"
  shows "a \<le> clamp x a b * 100 / 100 \<and> clamp x a b * 100 / 100 \<le> b"
  using clamp_lower [OF assms, of x] clamp_upper [of x a b] by simp

section \<open>Removal fractions\<close>

text \<open>
  C1. \<open>predict\<close> returns the removal fractions as percentages; as fractions they stay within
  the floor and the ceiling of their clamp for every sample, whatever its sign:
  lead in [0.55, 0.98] and arsenic in [0.50, 0.97] in \<open>App.jsx\<close>, lead in [0.60, 0.98] and
  arsenic in [0.55, 0.97] in the three heuristic dashboards. The static Bennyfilt
  dashboard, capacity-based too, keeps the narrower bounds of the heuristic ones.
\<close>

theorem removal_fractions_within_bounds:
  "(0.55 \<le> pbRemovalPct (predict_app s) / 100 \<and> pbRemovalPct (predict_app s) / 100 \<le> 0.98)
   \<and> (0.50 \<le> asRemovalPct (predict_app s) / 100 \<and> asRemovalPct (predict_app s) / 100 \<le> 0.97)
   \<and> (0.60 \<le> pbRemovalPct (predict_benny p a t f) / 100
        \<and> pbRemovalPct (predict_benny p a t f) / 100 \<le> 0.98)
   \<and> (0.55 \<le> asRemovalPct (predict_benny p a t f) / 100
        \<and> asRemovalPct (predict_benny p a t f) / 100 \<le> 0.97)
   \<and> (0.60 \<le> pbRemovalPct (predict_p001 h) / 100 \<and> pbRemovalPct (predict_p001 h) / 100 \<le> 0.98)
   \<and> (0.55 \<le> asRemovalPct (predict_p001 h) / 100 \<and> asRemovalPct (predict_p001 h) / 100 \<le> 0.97)
   \<and> (0.60 \<le> pbRemovalPct (predict_p003 h) / 100 \<and> pbRemovalPct (predict_p003 h) / 100 \<le> 0.98)
   \<and> (0.55 \<le> asRemovalPct (predict_p003 h) / 100 \<and> asRemovalPct (predict_p003 h) / 100 \<le> 0.97)
   \<and> (0.60 \<le> pbRemovalPct (predict_p004 h) / 100 \<and> pbRemovalPct (predict_p004 h) / 100 \<le> 0.98)
   \<and> (0.55 \<le> asRemovalPct (predict_p004 h) / 100 \<and> asRemovalPct (predict_p004 h) / 100 \<le> 0.97)"
  unfolding predict_p001_def predict_p003_def predict_p004_def
    pbRemovalPct_app asRemovalPct_app pbRemovalPct_benny asRemovalPct_benny
    pbRemovalPct_heuristic asRemovalPct_heuristic
  by (intro conjI fraction_in_bounds [THEN conjunct1] fraction_in_bounds [THEN conjunct2]) simp_all

text \<open>
  C2. Example 1 on the static Bennyfilt dashboard (media of 3000 g at 6 mg/g). For every
  input the returned removal fractions are the base 0.95 and 0.90 less the turbidity
  penalty \<open>clamp((turbidity - 50) / 1200, 0, 0.40)\<close>, clamped to [0.60, 0.98] and
  [0.55, 0.97], and the outlet concentrations are the inlet ones times one minus the
  fraction. With lead 0.20 mg/L, arsenic 1.00 mg/L, turbidity 500 NTU and 2000 L/day the
  penalty is 0.375, both fractions fall below their floors and are returned as 0.60 and
  0.55, and the outlet concentrations are 0.20 x 0.40 = 0.08 mg/L of lead and
  1.00 x 0.45 = 0.45 mg/L of arsenic.
\<close>

theorem example_1_bennyfilt:
  "MEDIA_MASS_G = 3000 \<and> CAPACITY_MG_G = 6
   \<and> pbRemovalPct (predict_benny p a t f) / 100
       = clamp (0.95 - clamp ((t - 50) / 1200) 0 0.40) 0.60 0.98
   \<and> asRemovalPct (predict_benny p a t f) / 100
       = clamp (0.90 - clamp ((t - 50) / 1200) 0 0.40) 0.55 0.97
   \<and> pbOut (predict_benny p a t f) = p * (1 - pbRemovalPct (predict_benny p a t f) / 100)
   \<and> asOut (predict_benny p a t f) = a * (1 - asRemovalPct (predict_benny p a t f) / 100)
   \<and> clamp ((500 - 50) / 1200) 0 0.40 = 0.375
   \<and> 0.95 - 0.375 < (0.60::real) \<and> clamp (0.95 - 0.375) 0.60 0.98 = 0.60
   \<and> 0.90 - 0.375 < (0.55::real) \<and> clamp (0.90 - 0.375) 0.55 0.97 = 0.55
   \<and> pbRemovalPct (predict_benny 0.20 1.00 500 2000) / 100 = 0.60
   \<and> asRemovalPct (predict_benny 0.20 1.00 500 2000) / 100 = 0.55
   \<and> pbOut (predict_benny 0.20 1.00 500 2000) = 0.20 * 0.40
   \<and> pbOut (predict_benny 0.20 1.00 500 2000) = 0.08
   \<and> asOut (predict_benny 0.20 1.00 500 2000) = 1.00 * 0.45
   \<and> asOut (predict_benny 0.20 1.00 500 2000) = 0.45"
proof -
  have general:
    "pbRemovalPct (predict_benny p a t f) / 100
       = clamp (0.95 - clamp ((t - 50) / 1200) 0 0.40) 0.60 0.98
     \<and> asRemovalPct (predict_benny p a t f) / 100
       = clamp (0.90 - clamp ((t - 50) / 1200) 0 0.40) 0.55 0.97
     \<and> pbOut (predict_benny p a t f) = p * (1 - pbRemovalPct (predict_benny p a t f) / 100)
     \<and> asOut (predict_benny p a t f) = a * (1 - asRemovalPct (predict_benny p a t f) / 100)"
    unfolding pbRemovalPct_benny asRemovalPct_benny pbOut_benny asOut_benny by simp
  have example:
    "clamp ((500 - 50) / 1200) 0 0.40 = 0.375
     \<and> 0.95 - 0.375 < (0.60::real) \<and> clamp (0.95 - 0.375) 0.60 0.98 = 0.60
     \<and> 0.90 - 0.375 < (0.55::real) \<and> clamp (0.90 - 0.375) 0.55 0.97 = 0.55
     \<and> pbRemovalPct (predict_benny 0.20 1.00 500 2000) / 100 = 0.60
     \<and> asRemovalPct (predict_benny 0.20 1.00 500 2000) / 100 = 0.55
     \<and> pbOut (predict_benny 0.20 1.00 500 2000) = 0.20 * 0.40
     \<and> pbOut (predict_benny 0.20 1.00 500 2000) = 0.08
     \<and> asOut (predict_benny 0.20 1.00 500 2000) = 1.00 * 0.45
     \<and> asOut (predict_benny 0.20 1.00 500 2000) = 0.45"
    unfolding pbRemovalPct_benny asRemovalPct_benny pbOut_benny asOut_benny
    by (simp add: clamp_def)
  show ?thesis
    using general example by (simp add: MEDIA_MASS_G_def CAPACITY_MG_G_def)
qed

section \<open>Remaining life and daily flow\<close>

lemma clamp_nonneg: "0 \<le> a \<Longrightarrow> a \<le> b \<Longrightarrow> 0 \<le> clamp x a b"
  using clamp_lower [of a b x] by simp

lemma rulDays_app:
  "rulDays (predict_app s) =
     clamp (totalCapacity_mg (predict_app s)
            / max (1 / 10 ^ 9)
                (max 0 (pb s * flow_L_day s) * (pbRemovalPct (predict_app s) / 100)
                 + max 0 (as s * flow_L_day s) * (asRemovalPct (predict_app s) / 100))) 0 365"
  by (simp add: predict_app_def Let_def)

lemma total_removed_mg_day_app:
  "total_removed_mg_day (predict_app s) =
     max (1 / 10 ^ 9)
       (max 0 (pb s * flow_L_day s) * (pbRemovalPct (predict_app s) / 100)
        + max 0 (as s * flow_L_day s) * (asRemovalPct (predict_app s) / 100))"
  by (simp add: predict_app_def Let_def)

lemma totalCapacity_mg_app:
  "totalCapacity_mg (predict_app s) =
     max 0 (mediaMass_g s * capacity_mg_g s
            * clamp (1.0 - 0.60 * clamp (turbidity s / 1000) 0 1.5) 0.35 1.0)"
  by (simp add: predict_app_def Let_def)

lemma days_benny:
  "days (predict_benny p a t f) =
     clamp (benny_result.totalCapacity_mg (predict_benny p a t f)
            / max (1 / 10 ^ 9)
                ((p * f) * (pbRemovalPct (predict_benny p a t f) / 100)
                 + (a * f) * (asRemovalPct (predict_benny p a t f) / 100))) 0 365"
  by (simp add: predict_benny_def Let_def)

lemma removed_mg_day_benny:
  "removed_mg_day (predict_benny p a t f) =
     max (1 / 10 ^ 9)
       ((p * f) * (pbRemovalPct (predict_benny p a t f) / 100)
        + (a * f) * (asRemovalPct (predict_benny p a t f) / 100))"
  by (simp add: predict_benny_def Let_def)

lemma totalCapacity_mg_benny:
  "benny_result.totalCapacity_mg (predict_benny p a t f) =
     max 0 (MEDIA_MASS_G * CAPACITY_MG_G
            * clamp (1 - 0.60 * clamp (t / 1000) 0 1.5) 0.35 1.0)"
  by (simp add: predict_benny_def Let_def)

lemma life_antimono:
  fixes C e d1 d2 :: real
  assumes "0 \<le> C" "0 < e" "d1 \<le> d2"
  shows "clamp (C / max e d2) 0 365 \<le> clamp (C / max e d1) 0 365"
proof (rule clamp_mono)
  have "max e d1 \<le> max e d2" using assms(3) by (rule max.mono [OF order_refl])
  moreover have "0 < max e d1" using assms(2) by (simp add: less_max_iff_disj)
  ultimately show "C / max e d2 \<le> C / max e d1"
    using assms(1) by (simp add: frac_le)
qed

lemma removed_mono_app:
  fixes p a pr ar f1 f2 :: real
  assumes "0 \<le> p" "0 \<le> a" "0 \<le> pr" "0 \<le> ar" "f1 \<le> f2"
  shows "max 0 (p * f1) * pr + max 0 (a * f1) * ar \<le> max 0 (p * f2) * pr + max 0 (a * f2) * ar"
proof -
  have "p * f1 \<le> p * f2" "a * f1 \<le> a * f2"
    using assms by (simp_all add: mult_left_mono)
  hence "max 0 (p * f1) \<le> max 0 (p * f2)" "max 0 (a * f1) \<le> max 0 (a * f2)"
    by (auto intro: max.mono)
  thus ?thesis using assms(3,4) by (simp add: add_mono mult_right_mono)
qed

lemma removed_mono_benny:
  fixes p a pr ar f1 f2 :: real
  assumes "0 \<le> p" "0 \<le> a" "0 \<le> pr" "0 \<le> ar" "f1 \<le> f2"
  shows "(p * f1) * pr + (a * f1) * ar \<le> (p * f2) * pr + (a * f2) * ar"
proof -
  have "p * f1 \<le> p * f2" "a * f1 \<le> a * f2"
    using assms by (simp_all add: mult_left_mono)
  thus ?thesis using assms(3,4) by (simp add: add_mono mult_right_mono)
qed

text \<open>
  C3. In both capacity-based dashboards, with the lead and arsenic readings non-negative
  and everything but the daily flow held fixed, the remaining life in days does not grow
  when the daily flow grows. The flows themselves, the pH, the turbidity and the media
  need no sign condition.
\<close>

theorem life_nonincreasing_in_flow:
  assumes "0 \<le> pb s" and "0 \<le> as s" and "0 \<le> p" and "0 \<le> a" and "f1 \<le> f2"
  shows "rulDays (predict_app (s\<lparr>flow_L_day := f2\<rparr>))
           \<le> rulDays (predict_app (s\<lparr>flow_L_day := f1\<rparr>))
       \<and> days (predict_benny p a t f2) \<le> days (predict_benny p a t f1)"
proof
  show "rulDays (predict_app (s\<lparr>flow_L_day := f2\<rparr>))
          \<le> rulDays (predict_app (s\<lparr>flow_L_day := f1\<rparr>))"
    unfolding rulDays_app totalCapacity_mg_app pbRemovalPct_app asRemovalPct_app
    using assms(1,2,5)
    by (simp add: life_antimono removed_mono_app clamp_nonneg)
next
  show "days (predict_benny p a t f2) \<le> days (predict_benny p a t f1)"
    unfolding days_benny totalCapacity_mg_benny pbRemovalPct_benny asRemovalPct_benny
    using assms(3,4,5)
    by (simp add: life_antimono removed_mono_benny clamp_nonneg)
qed

theorem life_nonincreasing_in_flow_witness:
  "(0::real) \<le> pb DEFAULTS \<and> (0::real) \<le> as DEFAULTS \<and> (1000::real) \<le> 2000
   \<and> rulDays (predict_app (DEFAULTS\<lparr>flow_L_day := 2000\<rparr>))
       \<le> rulDays (predict_app (DEFAULTS\<lparr>flow_L_day := 1000\<rparr>))
   \<and> days (predict_benny 0.20 1.00 500 2000) \<le> days (predict_benny 0.20 1.00 500 1000)"
  using life_nonincreasing_in_flow [of DEFAULTS "0.20" "1.00" 1000 2000 500]
  by (simp add: DEFAULTS_def)

section \<open>Risk score\<close>

lemma risk_app:
  "risk (predict_app s) =
     clamp (0.10
            + clamp ((turbidity s - 200) / 1200) 0 0.45
            + clamp ((pb s + as s) / 12.0) 0 0.25
            + clamp (\<bar>ph s - 7.5\<bar> / 7.5) 0 0.15
            + clamp (flow_L_day s / 8000) 0 0.15) 0.05 0.95"
  by (simp add: predict_app_def Let_def)

lemma risk_heuristic:
  "risk (predict_heuristic ta pa ma ra s) =
     clamp (0.12
            + clamp ((turbidity s - 200) / 1200) 0 0.45
            + clamp ((pb s + as s) / 12.0) 0 0.35
            + clamp (\<bar>ph s - 7.5\<bar> / 7.5) 0 0.20) 0.05 0.95"
  by (simp add: predict_heuristic_def Let_def)

lemma turbidity_term_mono:
  "t1 \<le> t2 \<Longrightarrow> clamp ((t1 - 200) / 1200) 0 0.45 \<le> clamp ((t2 - 200) / 1200) 0 0.45"
  by (rule clamp_mono) (simp add: divide_right_mono)

lemma clamp_above_floor: "a \<le> x \<Longrightarrow> clamp x a b = min b x"
  by (simp add: clamp_def max_absorb2)

lemma risk_presum_app:
  "0.10 \<le> 0.10 + clamp x1 0 0.45 + clamp x2 0 0.25 + clamp x3 0 0.15 + clamp x4 0 0.15"
  using clamp_lower [of 0 "0.45" x1] clamp_lower [of 0 "0.25" x2] clamp_lower [of 0 "0.15" x3]
    clamp_lower [of 0 "0.15" x4]
  by simp

lemma risk_presum_heuristic:
  "0.12 \<le> 0.12 + clamp x1 0 0.45 + clamp x2 0 0.35 + clamp x3 0 0.20"
  using clamp_lower [of 0 "0.45" x1] clamp_lower [of 0 "0.35" x2] clamp_lower [of 0 "0.20" x3]
  by simp

text \<open>
  C4. With everything but the turbidity held fixed, the risk score returned by \<open>predict\<close>
  does not fall when the turbidity rises, in \<open>App.jsx\<close> (where the daily flow enters the
  score) and in the three heuristic dashboards.
\<close>

theorem risk_nondecreasing_in_turbidity:
  assumes "t1 \<le> t2"
  shows "risk (predict_app (s\<lparr>turbidity := t1\<rparr>)) \<le> risk (predict_app (s\<lparr>turbidity := t2\<rparr>))
       \<and> risk (predict_p001 (h\<lparr>turbidity := t1\<rparr>)) \<le> risk (predict_p001 (h\<lparr>turbidity := t2\<rparr>))
       \<and> risk (predict_p003 (h\<lparr>turbidity := t1\<rparr>)) \<le> risk (predict_p003 (h\<lparr>turbidity := t2\<rparr>))
       \<and> risk (predict_p004 (h\<lparr>turbidity := t1\<rparr>)) \<le> risk (predict_p004 (h\<lparr>turbidity := t2\<rparr>))"
  unfolding predict_p001_def predict_p003_def predict_p004_def risk_app risk_heuristic
  using turbidity_term_mono [OF assms]
  by (simp add: clamp_mono)

theorem risk_nondecreasing_in_turbidity_witness:
  "(500::real) \<le> 840
   \<and> risk (predict_app (DEFAULTS\<lparr>turbidity := 500\<rparr>))
       \<le> risk (predict_app (DEFAULTS\<lparr>turbidity := 840\<rparr>))
   \<and> risk (predict_p001 (\<lparr>pb = 0.20, as = 0.05, ph = 8.0, turbidity = 40\<rparr>\<lparr>turbidity := 500\<rparr>))
       \<le> risk (predict_p001 (\<lparr>pb = 0.20, as = 0.05, ph = 8.0, turbidity = 40\<rparr>\<lparr>turbidity := 840\<rparr>))"
  using risk_nondecreasing_in_turbidity
    [of 500 840 DEFAULTS "\<lparr>pb = 0.20, as = 0.05, ph = 8.0, turbidity = 40\<rparr>"]
  by simp

text \<open>
  C10. The risk score is never below its baseline offset, 0.10 in \<open>App.jsx\<close> and 0.12 in
  the heuristic dashboards: the sum that is clamped is the offset plus terms clamped at
  zero from below. The floor 0.05 of the final clamp therefore never binds, and the score
  is the smaller of 0.95 and that sum.
\<close>

theorem risk_at_least_baseline:
  "0.10 \<le> risk (predict_app s)
   \<and> risk (predict_app s) =
        min 0.95 (0.10 + clamp ((turbidity s - 200) / 1200) 0 0.45
                  + clamp ((pb s + as s) / 12.0) 0 0.25
                  + clamp (\<bar>ph s - 7.5\<bar> / 7.5) 0 0.15 + clamp (flow_L_day s / 8000) 0 0.15)
   \<and> 0.12 \<le> risk (predict_p001 h) \<and> 0.12 \<le> risk (predict_p003 h) \<and> 0.12 \<le> risk (predict_p004 h)
   \<and> risk (predict_p001 h) =
        min 0.95 (0.12 + clamp ((turbidity h - 200) / 1200) 0 0.45
                  + clamp ((pb h + as h) / 12.0) 0 0.35
                  + clamp (\<bar>ph h - 7.5\<bar> / 7.5) 0 0.20)
   \<and> risk (predict_p003 h) = risk (predict_p001 h) \<and> risk (predict_p004 h) = risk (predict_p001 h)"
proof -
  let ?A = "0.10 + clamp ((turbidity s - 200) / 1200) 0 0.45
                  + clamp ((pb s + as s) / 12.0) 0 0.25
                  + clamp (\<bar>ph s - 7.5\<bar> / 7.5) 0 0.15 + clamp (flow_L_day s / 8000) 0 0.15"
  let ?H = "0.12 + clamp ((turbidity h - 200) / 1200) 0 0.45
                  + clamp ((pb h + as h) / 12.0) 0 0.35
                  + clamp (\<bar>ph h - 7.5\<bar> / 7.5) 0 0.20"
  have A: "0.10 \<le> ?A" by (rule risk_presum_app)
  have H: "0.12 \<le> ?H" by (rule risk_presum_heuristic)
  have rA: "risk (predict_app s) = min 0.95 ?A"
    unfolding risk_app using A by (intro clamp_above_floor) simp
  have rH: "risk (predict_heuristic ta pa ma ra h) = min 0.95 ?H" for ta pa ma ra
    unfolding risk_heuristic using H by (intro clamp_above_floor) simp
  show ?thesis
    unfolding predict_p001_def predict_p003_def predict_p004_def rH rA
    using A H by simp
qed

section \<open>Zero daily flow\<close>

lemma rulDays_app_fields:
  "rulDays (predict_app s) =
     clamp (totalCapacity_mg (predict_app s) / total_removed_mg_day (predict_app s)) 0 365"
  by (simp add: predict_app_def Let_def)

lemma days_benny_fields:
  "days (predict_benny p a t f) =
     clamp (benny_result.totalCapacity_mg (predict_benny p a t f)
            / removed_mg_day (predict_benny p a t f)) 0 365"
  by (simp add: predict_benny_def Let_def)

lemma zero_flow_removed_app:
  "flow_L_day s = 0 \<Longrightarrow> total_removed_mg_day (predict_app s) = 1 / 10 ^ 9"
  unfolding total_removed_mg_day_app by simp

lemma zero_flow_removed_benny:
  "removed_mg_day (predict_benny p a t 0) = 1 / 10 ^ 9"
  unfolding removed_mg_day_benny by simp

lemma clamp_at_ceiling: "a \<le> b \<Longrightarrow> b \<le> x \<Longrightarrow> clamp x a b = b"
  by (simp add: clamp_def)

lemma totalCapacity_mg_benny_lower:
  "6300 \<le> benny_result.totalCapacity_mg (predict_benny p a t f)"
proof -
  have "0.35 \<le> clamp (1 - 0.60 * clamp (t / 1000) 0 1.5) 0.35 1.0"
    by (rule clamp_lower) simp
  hence "6300 \<le> MEDIA_MASS_G * CAPACITY_MG_G * clamp (1 - 0.60 * clamp (t / 1000) 0 1.5) 0.35 1.0"
    by (simp add: MEDIA_MASS_G_def CAPACITY_MG_G_def)
  thus ?thesis unfolding totalCapacity_mg_benny by simp
qed

lemma totalCapacity_mg_app_nonneg: "0 \<le> totalCapacity_mg (predict_app s)"
  unfolding totalCapacity_mg_app by simp

lemma totalCapacity_mg_tiny_media: "totalCapacity_mg (predict_app tiny_media) = 1 / 10 ^ 8"
  unfolding totalCapacity_mg_app by (simp add: tiny_media_def clamp_def)

lemma totalCapacity_mg_DEFAULTS_no_flow:
  "totalCapacity_mg (predict_app (DEFAULTS\<lparr>flow_L_day := 0\<rparr>)) = 12600"
  unfolding totalCapacity_mg_app by (simp add: DEFAULTS_def clamp_def)

text \<open>
  C5, as amended. With a daily flow of zero the daily removed mass is floored at the
  epsilon \<open>1e-9\<close>, whatever the media, so the division is by a positive number and yields
  an ordinary number. The remaining life is then the usable capacity in mg divided by
  \<open>1e-9\<close> and capped at 365: it is 365 days when the usable capacity is at least
  \<open>365e-9\<close> mg, as it is for 3000 g of media at 6 mg/g, and always in the static
  Bennyfilt dashboard, whose media is fixed. A smaller usable capacity gives the capacity
  divided by \<open>1e-9\<close> days, fewer than 365.
\<close>

theorem zero_flow_life_is_maximal:
  assumes "flow_L_day s = 0"
  shows "total_removed_mg_day (predict_app s) = 1 / 10 ^ 9
       \<and> rulDays (predict_app s) = min 365 (totalCapacity_mg (predict_app s) / (1 / 10 ^ 9))
       \<and> (365 / 10 ^ 9 \<le> totalCapacity_mg (predict_app s) \<longrightarrow> rulDays (predict_app s) = 365)
       \<and> (totalCapacity_mg (predict_app s) < 365 / 10 ^ 9 \<longrightarrow>
            rulDays (predict_app s) = totalCapacity_mg (predict_app s) / (1 / 10 ^ 9)
            \<and> rulDays (predict_app s) < 365)
       \<and> removed_mg_day (predict_benny p a t 0) = 1 / 10 ^ 9
       \<and> days (predict_benny p a t 0) = 365"
proof -
  let ?C = "totalCapacity_mg (predict_app s)"
  have den: "total_removed_mg_day (predict_app s) = 1 / 10 ^ 9"
    by (rule zero_flow_removed_app [OF assms])
  have life: "rulDays (predict_app s) = clamp (?C / (1 / 10 ^ 9)) 0 365"
    unfolding rulDays_app_fields den ..
  have nonneg: "0 \<le> ?C / (1 / 10 ^ 9)"
    using totalCapacity_mg_app_nonneg [of s] by simp
  have as_min: "rulDays (predict_app s) = min 365 (?C / (1 / 10 ^ 9))"
    unfolding life using nonneg by (rule clamp_above_floor)
  have high: "rulDays (predict_app s) = 365" if "365 / 10 ^ 9 \<le> ?C"
  proof -
    have "365 \<le> ?C / (1 / 10 ^ 9)" using that by simp
    thus ?thesis unfolding as_min by simp
  qed
  have low: "rulDays (predict_app s) = ?C / (1 / 10 ^ 9) \<and> rulDays (predict_app s) < 365"
    if "?C < 365 / 10 ^ 9"
  proof -
    have "?C / (1 / 10 ^ 9) < 365" using that by simp
    thus ?thesis unfolding as_min by simp
  qed
  have "days (predict_benny p a t 0)
          = clamp (benny_result.totalCapacity_mg (predict_benny p a t 0) / (1 / 10 ^ 9)) 0 365"
    unfolding days_benny_fields zero_flow_removed_benny ..
  moreover have "365 \<le> benny_result.totalCapacity_mg (predict_benny p a t 0) / (1 / 10 ^ 9)"
    using totalCapacity_mg_benny_lower [of p a t 0] by simp
  ultimately have benny: "days (predict_benny p a t 0) = 365"
    by (simp add: clamp_at_ceiling)
  show ?thesis
    using den as_min high low benny zero_flow_removed_benny [of p a t] by blast
qed

theorem zero_flow_life_is_maximal_witness:
  "flow_L_day (DEFAULTS\<lparr>flow_L_day := 0\<rparr>) = 0
   \<and> 365 / 10 ^ 9 \<le> totalCapacity_mg (predict_app (DEFAULTS\<lparr>flow_L_day := 0\<rparr>))
   \<and> total_removed_mg_day (predict_app (DEFAULTS\<lparr>flow_L_day := 0\<rparr>)) = 1 / 10 ^ 9
   \<and> rulDays (predict_app (DEFAULTS\<lparr>flow_L_day := 0\<rparr>)) = 365
   \<and> flow_L_day tiny_media = 0
   \<and> totalCapacity_mg (predict_app tiny_media) < 365 / 10 ^ 9
   \<and> total_removed_mg_day (predict_app tiny_media) = 1 / 10 ^ 9
   \<and> rulDays (predict_app tiny_media) = totalCapacity_mg (predict_app tiny_media) / (1 / 10 ^ 9)
   \<and> rulDays (predict_app tiny_media) < 365
   \<and> days (predict_benny 0.20 1.00 500 0) = 365"
proof -
  have f: "flow_L_day (DEFAULTS\<lparr>flow_L_day := 0\<rparr>) = 0" "flow_L_day tiny_media = 0"
    by (simp_all add: tiny_media_def)
  show ?thesis
    using zero_flow_life_is_maximal [OF f(1), of "0.20" "1.00" 500]
      zero_flow_life_is_maximal [OF f(2), of "0.20" "1.00" 500]
      totalCapacity_mg_tiny_media totalCapacity_mg_DEFAULTS_no_flow f
    by simp
qed

text \<open>
  The claim as first stated asks for 365 days at any positive usable capacity. With no
  flow and \<open>1e-8\<close> g of media at 1 mg/g the usable capacity is positive, the denominator is
  the epsilon, and \<open>App.jsx\<close> returns 10 days.
\<close>

theorem zero_flow_tiny_media_life:
  "flow_L_day tiny_media = 0
   \<and> 0 < totalCapacity_mg (predict_app tiny_media)
   \<and> total_removed_mg_day (predict_app tiny_media) = 1 / 10 ^ 9
   \<and> rulDays (predict_app tiny_media) = 10
   \<and> rulDays (predict_app tiny_media) \<noteq> 365"
  unfolding rulDays_app total_removed_mg_day_app totalCapacity_mg_app
  by (simp add: tiny_media_def clamp_def)

section \<open>Trend series\<close>

lemma days_1_to_14: "[1 ..< 15] = map (\<lambda>i. i + 1) [0 ..< 14]"
  using map_Suc_upt [of 0 14] by simp

lemma upt_14: "[0 ..< 14] = [0, 1, 2, 3, 4, 5, 6, 7, 8, 9, 10, 11, 12, 13]"
  by (simp add: upt_rec)

lemma clamp_inside: "a \<le> x \<Longrightarrow> x \<le> b \<Longrightarrow> clamp x a b = x"
  by (simp add: clamp_def)

lemma linear_decay_spec_14:
  assumes "x < 14"
  shows "linear_decay_spec 14 (Suc x) = 100 - (100 + real x * 100) / 14"
proof -
  have "real x < 14" using assms by simp
  hence "0 \<le> 100 - 100 * real (Suc x) / 14" "100 - 100 * real (Suc x) / 14 \<le> 100"
    by simp_all
  hence "linear_decay_spec 14 (Suc x) = 100 - 100 * real (Suc x) / 14"
    unfolding linear_decay_spec_def by (rule clamp_inside)
  thus ?thesis by (simp add: algebra_simps)
qed

lemma remaining_point_inside:
  assumes "x < 14"
  shows "clamp (100 - (100 + real x * 100) / 14) 0 100 = 100 - (100 + real x * 100) / 14"
proof -
  have "real x < 14" using assms by simp
  hence "0 \<le> 100 - (100 + real x * 100) / 14" "100 - (100 + real x * 100) / 14 \<le> 100"
    by simp_all
  thus ?thesis by (rule clamp_inside)
qed

lemma remaining_makeTrend_app:
  "map remaining (makeTrend_app r f tot) = map (linear_decay_spec 14) [1 ..< 15]"
proof -
  have "0 < max r (1 / 10 ^ 6)" by (simp add: less_max_iff_disj)
  thus ?thesis
    unfolding days_1_to_14
    by (simp add: makeTrend_app_def Let_def comp_def linear_decay_spec_14 remaining_point_inside
        del: upt_Suc)
qed

lemma remaining_update_trend:
  "map remaining (update_trend p a t f) = map (linear_decay_spec 14) [1 ..< 15]"
  unfolding days_1_to_14
  by (simp add: update_trend_def Let_def comp_def linear_decay_spec_14 del: upt_Suc)

lemma linear_decay_spec_range: "0 \<le> linear_decay_spec d i \<and> linear_decay_spec d i \<le> 100"
  by (simp add: linear_decay_spec_def clamp_lower clamp_upper)

lemma capacity_heuristic_range:
  "x \<in> set (makeTrend_heuristic r) \<Longrightarrow> 8 \<le> capacity x \<and> capacity x \<le> 100"
  by (auto simp add: makeTrend_heuristic_def Let_def clamp_lower clamp_upper simp del: upt_Suc)

lemma capacity_makeTrend_heuristic:
  "r \<noteq> 0 \<Longrightarrow> map capacity (makeTrend_heuristic r)
     = map (\<lambda>i. clamp (100 - 100 * real i / (r * 0.55)) 8 100) [1 ..< 15]"
  unfolding days_1_to_14
  by (simp add: makeTrend_heuristic_def Let_def comp_def del: upt_Suc)

lemma remaining_in_range:
  assumes "map remaining xs = map (linear_decay_spec 14) ds" and "x \<in> set xs"
  shows "0 \<le> remaining x \<and> remaining x \<le> 100"
proof -
  have "remaining x \<in> set (map remaining xs)" using assms(2) by simp
  hence "remaining x \<in> set (map (linear_decay_spec 14) ds)" using assms(1) by simp
  thus ?thesis using linear_decay_spec_range by auto
qed

lemma length_makeTrend_heuristic: "length (makeTrend_heuristic r) = 14"
  by (simp add: makeTrend_heuristic_def Let_def del: upt_Suc)

text \<open>
  C6, as amended. Every remaining-percentage or capacity value of the 14 trend points lies
  in [0, 100]. In the capacity-based dashboards (\<open>makeTrend\<close> of \<open>App.jsx\<close> and the series
  of the static Bennyfilt dashboard) the value at day \<open>i\<close> is the specification's linear
  decay over the 14-point window, \<open>100 - 100 i / 14\<close>, whatever the life duration, and
  reaches 0 at day 14. In the heuristic dashboards the capacity at day \<open>i\<close> is
  \<open>100 - 100 i / (0.55 rulDays)\<close> clamped to [8, 100]: a linear decay over 0.55 times
  the life duration that stops at the floor of 8 percent and never reaches 0.
\<close>

theorem trend_remaining_values:
  "map remaining (makeTrend_app r f tot) = map (linear_decay_spec 14) [1 ..< 15]
   \<and> map remaining (update_trend p a t f) = map (linear_decay_spec 14) [1 ..< 15]
   \<and> (\<forall>x \<in> set (makeTrend_app r f tot). 0 \<le> remaining x \<and> remaining x \<le> 100)
   \<and> (\<forall>x \<in> set (update_trend p a t f). 0 \<le> remaining x \<and> remaining x \<le> 100)
   \<and> (\<forall>x \<in> set (makeTrend_heuristic r). 8 \<le> capacity x \<and> capacity x \<le> 100)
   \<and> (r \<noteq> 0 \<longrightarrow> map capacity (makeTrend_heuristic r)
                 = map (\<lambda>i. clamp (100 - 100 * real i / (r * 0.55)) 8 100) [1 ..< 15])"
  using remaining_makeTrend_app [of r f tot] remaining_update_trend [of p a t f]
    capacity_heuristic_range [of _ r] capacity_makeTrend_heuristic [of r]
    remaining_in_range [OF remaining_makeTrend_app [of r f tot]]
    remaining_in_range [OF remaining_update_trend [of p a t f]]
  by blast

theorem trend_remaining_values_witness:
  "(30::real) \<noteq> 0
   \<and> map capacity (makeTrend_heuristic 30)
       = map (\<lambda>i. clamp (100 - 100 * real i / (30 * 0.55)) 8 100) [1 ..< 15]
   \<and> 8 \<le> capacity (makeTrend_heuristic 30 ! 13) \<and> capacity (makeTrend_heuristic 30 ! 13) \<le> 100
   \<and> map remaining (makeTrend_app 30 2000 60000) = map (linear_decay_spec 14) [1 ..< 15]"
proof -
  have "makeTrend_heuristic 30 ! 13 \<in> set (makeTrend_heuristic 30)"
    by (rule nth_mem) (simp add: length_makeTrend_heuristic)
  thus ?thesis
    using trend_remaining_values [of 30 2000 60000 "0.20" "1.00" 500]
    by simp
qed

text \<open>
  The claim as first stated has every variant decay to 0. At day 14 the heuristic
  \<open>makeTrend\<close> returns a capacity of 8 for a life of 3 days and of 500/33 for a life of
  30 days, where a linear decay to 0 over the life duration or over the 14-point window
  gives 0, 0 and 160/3.
\<close>

theorem heuristic_trend_floor:
  "capacity (makeTrend_heuristic 3 ! 13) = 8
   \<and> linear_decay_spec 3 14 = 0 \<and> linear_decay_spec 14 14 = 0
   \<and> capacity (makeTrend_heuristic 30 ! 13) = 500 / 33
   \<and> linear_decay_spec 30 14 = 160 / 3"
  by (simp add: makeTrend_heuristic_def Let_def upt_14 clamp_def linear_decay_spec_def del: upt_Suc)

text \<open>
  C7. Every trend series has exactly 14 points, with the day indices 1 to 14 in increasing
  order, and in the capacity-based dashboards the treated volume at day \<open>i\<close> is the smaller
  of the total treatable volume and \<open>i\<close> times the daily flow.
\<close>

theorem trend_days_and_treated:
  "length (makeTrend_app r f tot) = 14
   \<and> map day (makeTrend_app r f tot) = [1 ..< 15]
   \<and> map treated (makeTrend_app r f tot) = map (\<lambda>i. min tot (real i * f)) [1 ..< 15]
   \<and> length (update_trend p a t f) = 14
   \<and> map day (update_trend p a t f) = [1 ..< 15]
   \<and> map treated (update_trend p a t f)
       = map (\<lambda>i. min (benny_result.totalTreatable_L (predict_benny p a t f)) (real i * f))
           [1 ..< 15]
   \<and> length (makeTrend_heuristic r) = 14
   \<and> map day (makeTrend_heuristic r) = [1 ..< 15]
   \<and> [1 ..< 15] = [1, 2, 3, 4, 5, 6, 7, 8, 9, 10, 11, 12, 13, 14 :: nat]"
  unfolding days_1_to_14
  by (simp add: makeTrend_app_def update_trend_def makeTrend_heuristic_def Let_def comp_def upt_14
      del: upt_Suc)

section \<open>Recommendations\<close>

lemma actions_app:
  "actions (predict_app s) =
     pushRisk_app (risk (predict_app s))
       (pushMetals_app (pbPass (compliance (predict_app s))) (asPass (compliance (predict_app s)))
         (pushPh_app (ph s) (pushTurbidity_app (turbidity s) [])))"
  by (simp add: predict_app_def Let_def)

lemma actions_heuristic:
  "actions (predict_heuristic tp pp mp rp s) =
     rp (risk (predict_heuristic tp pp mp rp s))
       (mp (pbPass (compliance (predict_heuristic tp pp mp rp s)))
           (asPass (compliance (predict_heuristic tp pp mp rp s)))
         (pp (ph s) (tp (turbidity s) [])))"
  by (simp add: predict_heuristic_def Let_def)

lemma compliance_app:
  "pbPass (compliance (predict_app s)) = (pbOut (predict_app s) \<le> 0.01)"
  "asPass (compliance (predict_app s)) = (asOut (predict_app s) \<le> 0.01)"
  by (simp_all add: predict_app_def Let_def)

lemma compliance_heuristic:
  "pbPass (compliance (predict_heuristic tp pp mp rp s))
     = (pbOut (predict_heuristic tp pp mp rp s) \<le> 0.01)"
  "asPass (compliance (predict_heuristic tp pp mp rp s))
     = (asOut (predict_heuristic tp pp mp rp s) \<le> 0.01)"
  by (simp_all add: predict_heuristic_def Let_def)

lemma pbOut_app:
  "pbOut (predict_app s) = pb s * (1 - pbRemovalPct (predict_app s) / 100)"
  by (simp add: predict_app_def Let_def)

lemma asOut_app:
  "asOut (predict_app s) = as s * (1 - asRemovalPct (predict_app s) / 100)"
  by (simp add: predict_app_def Let_def)

lemma pbOut_heuristic:
  "pbOut (predict_heuristic tp pp mp rp s)
     = pb s * (1 - pbRemovalPct (predict_heuristic tp pp mp rp s) / 100)"
  by (simp add: predict_heuristic_def Let_def)

lemma asOut_heuristic:
  "asOut (predict_heuristic tp pp mp rp s)
     = as s * (1 - asRemovalPct (predict_heuristic tp pp mp rp s) / 100)"
  by (simp add: predict_heuristic_def Let_def)

lemma kind_app:
  "map kind (pushTurbidity_app t acts) = map kind acts
     @ [if t \<ge> 900 then ''bad'' else if t \<ge> 300 then ''warn'' else ''ok'']"
  "map kind (pushPh_app p acts) = map kind acts
     @ [if p < 5.0 \<or> p > 9.0 then ''bad'' else if p < 6.5 \<or> p > 8.5 then ''warn'' else ''ok'']"
  "map kind (pushMetals_app a b acts) = map kind acts @ [if \<not> a \<or> \<not> b then ''bad'' else ''ok'']"
  "map kind (pushRisk_app r acts) = map kind acts
     @ [if r \<ge> 0.66 then ''bad'' else if r \<ge> 0.33 then ''warn'' else ''ok'']"
  by (simp_all add: pushTurbidity_app_def pushPh_app_def pushMetals_app_def pushRisk_app_def)

lemma kind_p001:
  "map kind (pushTurbidity_p001 t acts) = map kind acts
     @ [if t \<ge> 900 then ''bad'' else if t \<ge> 300 then ''warn'' else ''ok'']"
  "map kind (pushPh_p001 p acts) = map kind acts @ [if p < 6.5 \<or> p > 8.5 then ''warn'' else ''ok'']"
  "map kind (pushMetals_p001 a b acts) = map kind acts @ [if \<not> a \<or> \<not> b then ''bad'' else ''ok'']"
  "map kind (pushRisk_p001 r acts) = map kind acts
     @ [if r \<ge> 0.66 then ''bad'' else if r \<ge> 0.33 then ''warn'' else ''ok'']"
  by (simp_all add: pushTurbidity_p001_def pushPh_p001_def pushMetals_p001_def pushRisk_p001_def)

lemma kind_p003:
  "map kind (pushTurbidity_p003 t acts) = map kind acts
     @ [if t > 10 then ''bad'' else if t > 5 then ''warn'' else ''ok'']"
  "map kind (pushPh_p003 p acts) = map kind acts @ [if p < 6.5 \<or> p > 8.5 then ''warn'' else ''ok'']"
  "map kind (pushMetals_p003 a b acts) = map kind acts @ [if \<not> a \<or> \<not> b then ''bad'' else ''ok'']"
  "map kind (pushRisk_p003 r acts) = map kind acts
     @ [if r \<ge> 0.66 then ''bad'' else if r \<ge> 0.33 then ''warn'' else ''ok'']"
  by (simp_all add: pushTurbidity_p003_def pushPh_p003_def pushMetals_p003_def pushRisk_p003_def)

lemma kind_p004:
  "map kind (pushTurbidity_p004 t acts) = map kind acts
     @ [if t \<ge> 900 then ''bad'' else if t \<ge> 300 then ''warn'' else ''ok'']"
  "map kind (pushPh_p004 p acts) = map kind acts @ [if p < 6.0 \<or> p > 9.0 then ''warn'' else ''ok'']"
  "map kind (pushMetals_p004 a b acts) = map kind acts @ [if \<not> a \<or> \<not> b then ''bad'' else ''ok'']"
  "map kind (pushRisk_p004 r acts) = map kind acts
     @ [if r \<ge> 0.66 then ''bad'' else if r \<ge> 0.33 then ''warn'' else ''ok'']"
  by (simp_all add: pushTurbidity_p004_def pushPh_p004_def pushMetals_p004_def pushRisk_p004_def)

text \<open>Each block pushes exactly one record and leaves the records before it as they are.\<close>

lemma push_app:
  "pushTurbidity_app t acts = acts @ pushTurbidity_app t []"
  "pushPh_app p acts = acts @ pushPh_app p []"
  "pushMetals_app a b acts = acts @ pushMetals_app a b []"
  "pushRisk_app r acts = acts @ pushRisk_app r []"
  by (simp_all add: pushTurbidity_app_def pushPh_app_def pushMetals_app_def pushRisk_app_def)

lemma push_p001:
  "pushTurbidity_p001 t acts = acts @ pushTurbidity_p001 t []"
  "pushPh_p001 p acts = acts @ pushPh_p001 p []"
  "pushMetals_p001 a b acts = acts @ pushMetals_p001 a b []"
  "pushRisk_p001 r acts = acts @ pushRisk_p001 r []"
  by (simp_all add: pushTurbidity_p001_def pushPh_p001_def pushMetals_p001_def pushRisk_p001_def)

lemma push_p003:
  "pushTurbidity_p003 t acts = acts @ pushTurbidity_p003 t []"
  "pushPh_p003 p acts = acts @ pushPh_p003 p []"
  "pushMetals_p003 a b acts = acts @ pushMetals_p003 a b []"
  "pushRisk_p003 r acts = acts @ pushRisk_p003 r []"
  by (simp_all add: pushTurbidity_p003_def pushPh_p003_def pushMetals_p003_def pushRisk_p003_def)

lemma push_p004:
  "pushTurbidity_p004 t acts = acts @ pushTurbidity_p004 t []"
  "pushPh_p004 p acts = acts @ pushPh_p004 p []"
  "pushMetals_p004 a b acts = acts @ pushMetals_p004 a b []"
  "pushRisk_p004 r acts = acts @ pushRisk_p004 r []"
  by (simp_all add: pushTurbidity_p004_def pushPh_p004_def pushMetals_p004_def pushRisk_p004_def)

lemma push_length_app:
  "length (pushTurbidity_app t []) = 1" "length (pushPh_app p []) = 1"
  "length (pushMetals_app a b []) = 1" "length (pushRisk_app r []) = 1"
  by (simp_all add: pushTurbidity_app_def pushPh_app_def pushMetals_app_def pushRisk_app_def)

lemma push_length_p001:
  "length (pushTurbidity_p001 t []) = 1" "length (pushPh_p001 p []) = 1"
  "length (pushMetals_p001 a b []) = 1" "length (pushRisk_p001 r []) = 1"
  by (simp_all add: pushTurbidity_p001_def pushPh_p001_def pushMetals_p001_def pushRisk_p001_def)

lemma push_length_p003:
  "length (pushTurbidity_p003 t []) = 1" "length (pushPh_p003 p []) = 1"
  "length (pushMetals_p003 a b []) = 1" "length (pushRisk_p003 r []) = 1"
  by (simp_all add: pushTurbidity_p003_def pushPh_p003_def pushMetals_p003_def pushRisk_p003_def)

lemma push_length_p004:
  "length (pushTurbidity_p004 t []) = 1" "length (pushPh_p004 p []) = 1"
  "length (pushMetals_p004 a b []) = 1" "length (pushRisk_p004 r []) = 1"
  by (simp_all add: pushTurbidity_p004_def pushPh_p004_def pushMetals_p004_def pushRisk_p004_def)

lemma four_pushes:
  assumes "\<And>acts. f2 acts = acts @ f2 []"
      and "\<And>acts. f3 acts = acts @ f3 []"
      and "\<And>acts. f4 acts = acts @ f4 []"
  shows "f4 (f3 (f2 (f1 []))) = f1 [] @ f2 [] @ f3 [] @ f4 []"
proof -
  have a: "f2 (f1 []) = f1 [] @ f2 []" by (rule assms(1))
  have b: "f3 (f2 (f1 [])) = f2 (f1 []) @ f3 []" by (rule assms(2))
  have c: "f4 (f3 (f2 (f1 []))) = f3 (f2 (f1 [])) @ f4 []" by (rule assms(3))
  note c
  also have "f3 (f2 (f1 [])) @ f4 [] = (f2 (f1 []) @ f3 []) @ f4 []" by (simp only: b)
  also have "(f2 (f1 []) @ f3 []) @ f4 [] = ((f1 [] @ f2 []) @ f3 []) @ f4 []" by (simp only: a)
  finally show ?thesis by simp
qed

lemma actions_app_concat:
  "actions (predict_app s) =
     pushTurbidity_app (turbidity s) [] @ pushPh_app (ph s) []
     @ pushMetals_app (pbPass (compliance (predict_app s))) (asPass (compliance (predict_app s))) []
     @ pushRisk_app (risk (predict_app s)) []"
  unfolding actions_app by (rule four_pushes) (rule push_app)+

lemma actions_p001_concat:
  "actions (predict_p001 h) =
     pushTurbidity_p001 (turbidity h) [] @ pushPh_p001 (ph h) []
     @ pushMetals_p001 (pbPass (compliance (predict_p001 h))) (asPass (compliance (predict_p001 h))) []
     @ pushRisk_p001 (risk (predict_p001 h)) []"
  unfolding predict_p001_def actions_heuristic by (rule four_pushes) (rule push_p001)+

lemma actions_p003_concat:
  "actions (predict_p003 h) =
     pushTurbidity_p003 (turbidity h) [] @ pushPh_p003 (ph h) []
     @ pushMetals_p003 (pbPass (compliance (predict_p003 h))) (asPass (compliance (predict_p003 h))) []
     @ pushRisk_p003 (risk (predict_p003 h)) []"
  unfolding predict_p003_def actions_heuristic by (rule four_pushes) (rule push_p003)+

lemma actions_p004_concat:
  "actions (predict_p004 h) =
     pushTurbidity_p004 (turbidity h) [] @ pushPh_p004 (ph h) []
     @ pushMetals_p004 (pbPass (compliance (predict_p004 h))) (asPass (compliance (predict_p004 h))) []
     @ pushRisk_p004 (risk (predict_p004 h)) []"
  unfolding predict_p004_def actions_heuristic by (rule four_pushes) (rule push_p004)+

text \<open>
  C8. In the four dashboards that give recommendations, \<open>predict\<close> runs the four checks in
  the order of the source (turbidity, pH, Pb/As compliance, risk) and each check pushes
  exactly one record: the returned list is the four single records in that order, and has
  length four. Each record is a function of the sample alone (\<open>predict\<close> reads nothing but
  its argument), so the same sample gives the same list. The static Bennyfilt dashboard
  returns no recommendations.
\<close>

theorem four_actions_in_order:
  "actions (predict_app s) =
     pushTurbidity_app (turbidity s) [] @ pushPh_app (ph s) []
     @ pushMetals_app (pbPass (compliance (predict_app s))) (asPass (compliance (predict_app s))) []
     @ pushRisk_app (risk (predict_app s)) []
   \<and> actions (predict_p001 h) =
     pushTurbidity_p001 (turbidity h) [] @ pushPh_p001 (ph h) []
     @ pushMetals_p001 (pbPass (compliance (predict_p001 h))) (asPass (compliance (predict_p001 h))) []
     @ pushRisk_p001 (risk (predict_p001 h)) []
   \<and> actions (predict_p003 h) =
     pushTurbidity_p003 (turbidity h) [] @ pushPh_p003 (ph h) []
     @ pushMetals_p003 (pbPass (compliance (predict_p003 h))) (asPass (compliance (predict_p003 h))) []
     @ pushRisk_p003 (risk (predict_p003 h)) []
   \<and> actions (predict_p004 h) =
     pushTurbidity_p004 (turbidity h) [] @ pushPh_p004 (ph h) []
     @ pushMetals_p004 (pbPass (compliance (predict_p004 h))) (asPass (compliance (predict_p004 h))) []
     @ pushRisk_p004 (risk (predict_p004 h)) []
   \<and> map length [pushTurbidity_app t [], pushPh_app p [], pushMetals_app a b [], pushRisk_app r []]
       = [1, 1, 1, 1]
   \<and> map length [pushTurbidity_p001 t [], pushPh_p001 p [], pushMetals_p001 a b [], pushRisk_p001 r []]
       = [1, 1, 1, 1]
   \<and> map length [pushTurbidity_p003 t [], pushPh_p003 p [], pushMetals_p003 a b [], pushRisk_p003 r []]
       = [1, 1, 1, 1]
   \<and> map length [pushTurbidity_p004 t [], pushPh_p004 p [], pushMetals_p004 a b [], pushRisk_p004 r []]
       = [1, 1, 1, 1]
   \<and> length (actions (predict_app s)) = 4 \<and> length (actions (predict_p001 h)) = 4
   \<and> length (actions (predict_p003 h)) = 4 \<and> length (actions (predict_p004 h)) = 4"
  unfolding actions_app_concat actions_p001_concat actions_p003_concat actions_p004_concat
  by (simp add: push_length_app push_length_p001 push_length_p003 push_length_p004)

lemma risk_app_DEFAULTS: "risk (predict_app DEFAULTS) = 0.75"
  unfolding risk_app by (simp add: DEFAULTS_def clamp_def)

lemma pbOut_app_DEFAULTS: "pbOut (predict_app DEFAULTS) = 0.09"
  unfolding pbOut_app pbRemovalPct_app by (simp add: DEFAULTS_def clamp_def)

lemma asOut_app_DEFAULTS: "asOut (predict_app DEFAULTS) = 0.5"
  unfolding asOut_app asRemovalPct_app by (simp add: DEFAULTS_def clamp_def)

theorem four_actions_in_order_witness:
  "map title (actions (predict_app DEFAULTS)) =
     [''High turbidity influent'', ''pH outside drinking-water target'',
      ''Predicted guideline exceedance'', ''Operational risk high'']
   \<and> length (actions (predict_app DEFAULTS)) = 4"
proof -
  have "turbidity DEFAULTS = 500" "ph DEFAULTS = 6.2" by (simp_all add: DEFAULTS_def)
  thus ?thesis
    using four_actions_in_order [of DEFAULTS DEFAULTS_p001]
    by (simp add: compliance_app pbOut_app_DEFAULTS asOut_app_DEFAULTS risk_app_DEFAULTS
        pushTurbidity_app_def pushPh_app_def pushMetals_app_def pushRisk_app_def)
qed

text \<open>
  C9, as amended. The severity tags of the four records follow fixed cut points, which
  are not the same in every dashboard. Turbidity: at least 900 is "bad", at least 300 is
  "warn", else "ok" in \<open>App.jsx\<close>, \<open>part_001\<close> and \<open>part_004\<close>; above 10 is "bad", above 5
  is "warn", else "ok" in \<open>part_003\<close>. pH: outside [6.5, 8.5] is "warn" in \<open>part_001\<close> and
  \<open>part_003\<close>; outside [6.0, 9.0] is "warn" in \<open>part_004\<close>; in \<open>App.jsx\<close> outside [5, 9] is
  "bad" and otherwise outside [6.5, 8.5] is "warn". Compliance: an outlet concentration
  above 0.01 mg/L of lead or of arsenic is "bad", else "ok". Risk: at least 0.66 is "bad",
  at least 0.33 is "warn", else "ok".
\<close>

theorem recommendation_cut_points:
  "map kind (actions (predict_app s)) =
     [if turbidity s \<ge> 900 then ''bad'' else if turbidity s \<ge> 300 then ''warn'' else ''ok'',
      if ph s < 5.0 \<or> ph s > 9.0 then ''bad''
      else if ph s < 6.5 \<or> ph s > 8.5 then ''warn'' else ''ok'',
      if \<not> pbOut (predict_app s) \<le> 0.01 \<or> \<not> asOut (predict_app s) \<le> 0.01 then ''bad'' else ''ok'',
      if risk (predict_app s) \<ge> 0.66 then ''bad''
      else if risk (predict_app s) \<ge> 0.33 then ''warn'' else ''ok'']
   \<and> map kind (actions (predict_p001 h)) =
     [if turbidity h \<ge> 900 then ''bad'' else if turbidity h \<ge> 300 then ''warn'' else ''ok'',
      if ph h < 6.5 \<or> ph h > 8.5 then ''warn'' else ''ok'',
      if \<not> pbOut (predict_p001 h) \<le> 0.01 \<or> \<not> asOut (predict_p001 h) \<le> 0.01 then ''bad'' else ''ok'',
      if risk (predict_p001 h) \<ge> 0.66 then ''bad''
      else if risk (predict_p001 h) \<ge> 0.33 then ''warn'' else ''ok'']
   \<and> map kind (actions (predict_p003 h)) =
     [if turbidity h > 10 then ''bad'' else if turbidity h > 5 then ''warn'' else ''ok'',
      if ph h < 6.5 \<or> ph h > 8.5 then ''warn'' else ''ok'',
      if \<not> pbOut (predict_p003 h) \<le> 0.01 \<or> \<not> asOut (predict_p003 h) \<le> 0.01 then ''bad'' else ''ok'',
      if risk (predict_p003 h) \<ge> 0.66 then ''bad''
      else if risk (predict_p003 h) \<ge> 0.33 then ''warn'' else ''ok'']
   \<and> map kind (actions (predict_p004 h)) =
     [if turbidity h \<ge> 900 then ''bad'' else if turbidity h \<ge> 300 then ''warn'' else ''ok'',
      if ph h < 6.0 \<or> ph h > 9.0 then ''warn'' else ''ok'',
      if \<not> pbOut (predict_p004 h) \<le> 0.01 \<or> \<not> asOut (predict_p004 h) \<le> 0.01 then ''bad'' else ''ok'',
      if risk (predict_p004 h) \<ge> 0.66 then ''bad''
      else if risk (predict_p004 h) \<ge> 0.33 then ''warn'' else ''ok'']"
  unfolding predict_p001_def predict_p003_def predict_p004_def actions_app actions_heuristic
    kind_app kind_p001 kind_p003 kind_p004 compliance_app compliance_heuristic
    list.map append.simps
  by (intro conjI refl)

lemma risk_p001_DEFAULTS: "risk (predict_p001 DEFAULTS_p001) = 0.6575"
  unfolding predict_p001_def risk_heuristic by (simp add: DEFAULTS_p001_def clamp_def)

lemma pbOut_p001_DEFAULTS: "pbOut (predict_p001 DEFAULTS_p001) = 0.08"
  unfolding predict_p001_def pbOut_heuristic pbRemovalPct_heuristic
  by (simp add: DEFAULTS_p001_def clamp_def)

theorem recommendation_cut_points_witness:
  "map kind (actions (predict_p001 DEFAULTS_p001)) = [''warn'', ''ok'', ''bad'', ''warn'']
   \<and> map kind (actions (predict_app DEFAULTS)) = [''warn'', ''warn'', ''bad'', ''bad'']"
proof -
  have "turbidity DEFAULTS_p001 = 840" "ph DEFAULTS_p001 = 8"
    "turbidity DEFAULTS = 500" "ph DEFAULTS = 6.2"
    by (simp_all add: DEFAULTS_def DEFAULTS_p001_def)
  thus ?thesis
    using recommendation_cut_points [of DEFAULTS DEFAULTS_p001]
    by (simp add: pbOut_p001_DEFAULTS risk_p001_DEFAULTS pbOut_app_DEFAULTS risk_app_DEFAULTS)
qed

text \<open>
  The claim as first stated gives every dashboard the cut points 900 and 300 for turbidity
  and the range [6.5, 8.5] for a pH warning. At its own default turbidity of 40 NTU
  \<open>part_003\<close> tags the turbidity record "bad"; at pH 6.2 \<open>part_004\<close> tags the pH record
  "ok"; at pH 4 \<open>App.jsx\<close> tags it "bad".
\<close>

theorem cut_points_differ_by_variant:
  "\<not> turbidity DEFAULTS_p003 \<ge> 300
   \<and> map kind (actions (predict_p003 DEFAULTS_p003)) ! 0 = ''bad''
   \<and> ph (DEFAULTS_p001\<lparr>ph := 6.2\<rparr>) < 6.5
   \<and> map kind (actions (predict_p004 (DEFAULTS_p001\<lparr>ph := 6.2\<rparr>))) ! 1 = ''ok''
   \<and> ph (DEFAULTS\<lparr>ph := 4\<rparr>) < 6.5
   \<and> map kind (actions (predict_app (DEFAULTS\<lparr>ph := 4\<rparr>))) ! 1 = ''bad''"
  unfolding predict_p003_def predict_p004_def actions_app actions_heuristic
    kind_app kind_p003 kind_p004
  by (simp add: DEFAULTS_def DEFAULTS_p001_def DEFAULTS_p003_def)

end
